theory Spec2Isabelle
  imports Complex_Main
begin

section \<open>The asset lifecycle engine of app.py\<close>

text \<open>
  A shallow embedding of the depreciation calculator (\<open>calc_depreciation\<close>) and of the
  request handlers that change assets, location history and sale/disposal transactions
  (\<open>approve_asset\<close>, \<open>approve_transaction\<close>, \<open>asset_edit\<close>, \<open>location_add\<close>,
  \<open>transaction_submit\<close>).

  Conventions of the model.
  \<^item> A nullable SQL column is an \<open>option\<close>; \<open>None\<close> is SQL \<open>NULL\<close> (Python \<open>None\<close>).
  \<^item> Money (SQL \<open>NUMERIC\<close>, a Python \<open>float\<close> after \<open>normalize\<close>) is an exact rational
    number. The arithmetic of \<open>calc_depreciation\<close> is therefore exact: the rounding error of
    binary floating point, overflow, infinities and NaN are not represented.
  \<^item> The three tables are lists of rows in insertion order. Each \<open>execute\<close> of the source
    commits on its own connection, so a handler that raises after an \<open>execute\<close> leaves that
    statement's effect in place: every handler returns its outcome together with the store.
  \<^item> The clock is explicit: \<open>calc_depreciation\<close> takes the value of
    \<open>datetime.date.today()\<close> as an argument, and a handler takes \<open>now\<close>, where
    \<open>now k\<close> is what SQL \<open>NOW()\<close> yields in the \<open>k\<close>-th \<open>execute\<close> of the request.
  \<^item> Library functions that read strings (\<open>datetime.date.fromisoformat\<close>, \<open>float\<close>, \<open>int\<close>)
    are arguments of the functions that call them, with \<open>None\<close> for \<open>ValueError\<close>; what is
    proved holds for every such function.
  \<^item> Flash messages and rendered pages are not modelled; a handler's response is the
    redirect target only.
\<close>

subsection \<open>Rows and the store\<close>

type_synonym sql_text = "string option"
type_synonym timestamp = nat

record asset =
  a_id :: nat
  a_asset_id :: string
  serial_number :: string
  asset_name :: string
  asset_type :: sql_text
  model :: sql_text
  purchase_date :: sql_text
  purchase_value :: "rat option"
  currency :: sql_text
  dep_method :: sql_text
  useful_life_months :: "int option"
  current_location :: sql_text
  status :: sql_text
  responsible :: sql_text
  a_notes :: sql_text
  a_approval_status :: sql_text
  a_created_at :: "timestamp option"
  updated_at :: "timestamp option"

record location_history_row =
  lh_id :: nat
  lh_asset_id :: string
  date_from :: sql_text
  date_to :: sql_text
  location :: sql_text
  country :: sql_text
  customer :: sql_text
  purpose :: sql_text
  shipped_by :: sql_text
  lh_notes :: sql_text
  lh_created_at :: "timestamp option"
  lh_created_by :: sql_text

record sales_disposal_row =
  tx_id :: nat
  tx_asset_id :: string
  tx_type :: sql_text
  tx_date :: sql_text
  book_value_at_tx :: "rat option"
  sale_price :: "rat option"
  buyer :: sql_text
  buyer_contact :: sql_text
  invoice_ref :: sql_text
  tx_notes :: sql_text
  tx_approval_status :: sql_text
  approved_by :: sql_text
  approved_at :: "timestamp option"
  reject_reason :: sql_text
  tx_created_at :: "timestamp option"
  tx_created_by :: sql_text

text \<open>
  What \<open>send_approval_email\<close> is asked to send: the values interpolated into the subject
  and the body (transaction type, asset id, asset name, book value). The rendering into
  HTML is not modelled.
\<close>

datatype email = Approval_request sql_text string string rat

record world =
  assets :: "asset list"
  location_history :: "location_history_row list"
  location_history_id_seq :: nat
  sales_disposal :: "sales_disposal_row list"
  outbox :: "email list"

datatype error =
  ZeroDivisionError | TypeError | AttributeError | BadRequestKeyError | ValueError
  | ForeignKeyViolation

datatype response =
  Redirect_login | Redirect_dashboard | Redirect_assets | Redirect_transactions
  | Redirect_asset_detail string | Render_asset_form

datatype outcome = Raised error | Returned response

datatype http_method = GET | POST

type_synonym form = "string \<rightharpoonup> string"

definition APPROVERS :: "string list" where
  "APPROVERS = [''Yuki'', ''Lo'']"

text \<open>\<open>f.get(key, default)\<close> on the request form.\<close>

definition form_get :: "form \<Rightarrow> string \<Rightarrow> string \<Rightarrow> string" where
  "form_get f k d = (case f k of None \<Rightarrow> d | Some v \<Rightarrow> v)"

text \<open>\<open>fetchone\<close>: the first row a query selects, if any.\<close>

definition fetchone :: "('r \<Rightarrow> bool) \<Rightarrow> 'r list \<Rightarrow> 'r option" where
  "fetchone p rows = find p rows"

text \<open>\<open>UPDATE ... SET ... WHERE\<close>: every selected row is rewritten in place.\<close>

definition sql_update :: "('r \<Rightarrow> bool) \<Rightarrow> ('r \<Rightarrow> 'r) \<Rightarrow> 'r list \<Rightarrow> 'r list" where
  "sql_update p g rows = map (\<lambda>r. if p r then g r else r) rows"

subsection \<open>Dates\<close>

record date =
  year :: int
  month :: int
  day :: int

definition is_leap :: "int \<Rightarrow> bool" where
  "is_leap y = (y mod 4 = 0 \<and> (y mod 100 \<noteq> 0 \<or> y mod 400 = 0))"

definition days_in_month :: "int \<Rightarrow> int \<Rightarrow> int" where
  "days_in_month y m =
     (if m = 2 then (if is_leap y then 29 else 28)
      else if m = 4 \<or> m = 6 \<or> m = 9 \<or> m = 11 then 30 else 31)"

text \<open>What a \<open>datetime.date\<close> object guarantees of its fields.\<close>

definition valid_date :: "date \<Rightarrow> bool" where
  "valid_date d =
     (1 \<le> year d \<and> year d \<le> 9999 \<and> 1 \<le> month d \<and> month d \<le> 12
      \<and> 1 \<le> day d \<and> day d \<le> days_in_month (year d) (month d))"


definition digit_of :: "char \<Rightarrow> int option" where
  "digit_of c =
     (let n = (of_char c :: nat) in if 48 \<le> n \<and> n \<le> 57 then Some (int n - 48) else None)"

fun number_of :: "int \<Rightarrow> string \<Rightarrow> int option" where
  "number_of acc [] = Some acc"
| "number_of acc (c # cs) =
     (case digit_of c of None \<Rightarrow> None | Some d \<Rightarrow> number_of (10 * acc + d) cs)"

text \<open>
  \<open>datetime.date.fromisoformat\<close> on the form \<open>YYYY-MM-DD\<close>, the one form every Python 3
  version reads; \<open>None\<close> is its \<open>ValueError\<close>. From Python 3.11 on the function also
  reads the basic form \<open>YYYYMMDD\<close> and ISO week dates, so \<open>calc_depreciation\<close> below takes
  the parser as an argument and this one serves the examples.
\<close>

definition date_fromisoformat :: "string \<Rightarrow> date option" where
  "date_fromisoformat s =
     (if length s = 10 \<and> s ! 4 = CHR ''-'' \<and> s ! 7 = CHR ''-'' then
        (case number_of 0 (take 4 s) of None \<Rightarrow> None | Some y \<Rightarrow>
         case number_of 0 (take 2 (drop 5 s)) of None \<Rightarrow> None | Some m \<Rightarrow>
         case number_of 0 (drop 8 s) of None \<Rightarrow> None | Some d \<Rightarrow>
           if valid_date \<lparr>year = y, month = m, day = d\<rparr>
           then Some \<lparr>year = y, month = m, day = d\<rparr> else None)
      else None)"

subsection \<open>Depreciation\<close>

record snapshot =
  monthly :: rat
  accumulated :: rat
  book_value :: rat
  months_elapsed :: int
  fully_dep :: bool

text \<open>Rounding to the nearest integer, a tie going to the even neighbour.\<close>

definition round_half_even :: "rat \<Rightarrow> int" where
  "round_half_even x =
     (let f = \<lfloor>x\<rfloor>; d = x - of_int f
      in if d < 1 / 2 then f else if 1 / 2 < d then f + 1 else if even f then f else f + 1)"

text \<open>Python's \<open>round(x, ndigits)\<close>: to \<open>ndigits\<close> decimals, ties to even.\<close>

definition py_round :: "rat \<Rightarrow> nat \<Rightarrow> rat" where
  "py_round x ndigits = of_int (round_half_even (x * 10 ^ ndigits)) / 10 ^ ndigits"

text \<open>Python's \<open>/\<close>: a zero divisor raises.\<close>

definition truediv :: "rat \<Rightarrow> rat \<Rightarrow> error + rat" where
  "truediv a b = (if b = 0 then Inl ZeroDivisionError else Inr (a / b))"

text \<open>The months from \<open>start\<close> to \<open>today\<close>, the day of the month ignored, never negative.\<close>

definition months_between :: "date \<Rightarrow> date \<Rightarrow> int" where
  "months_between start today =
     max 0 ((year today - year start) * 12 + (month today - month start))"

text \<open>The snapshot of the two early returns.\<close>

definition no_depreciation :: "rat \<Rightarrow> snapshot" where
  "no_depreciation pv =
     \<lparr>monthly = 0, accumulated = 0, book_value = pv, months_elapsed = 0, fully_dep = False\<rparr>"

text \<open>The final \<open>return\<close>: the three amounts rounded to two decimals.\<close>

definition rounded_snapshot :: "rat \<Rightarrow> rat \<Rightarrow> rat \<Rightarrow> int \<Rightarrow> int \<Rightarrow> snapshot" where
  "rounded_snapshot m acc bv months life =
     \<lparr>monthly = py_round m 2, accumulated = py_round acc 2, book_value = py_round bv 2,
      months_elapsed = months, fully_dep = (life \<le> months)\<rparr>"

text \<open>\<open>float(asset.get("purchase_value") or 0)\<close>\<close>

definition pv_of :: "asset \<Rightarrow> rat" where
  "pv_of asset = (case purchase_value asset of None \<Rightarrow> 0 | Some v \<Rightarrow> v)"

text \<open>\<open>str(asset.get("purchase_date") or "")[:10]\<close>\<close>

definition pd_of :: "asset \<Rightarrow> string" where
  "pd_of asset = take 10 (case purchase_date asset of None \<Rightarrow> [] | Some s \<Rightarrow> s)"

text \<open>\<open>asset.get("dep_method") or "None"\<close>: the empty string is falsy too.\<close>

definition meth_of :: "asset \<Rightarrow> string" where
  "meth_of asset =
     (case dep_method asset of None \<Rightarrow> ''None'' | Some m \<Rightarrow> if m = [] then ''None'' else m)"

text \<open>\<open>int(asset.get("useful_life_months") or 60)\<close>: \<open>NULL\<close> and 0 become 60.\<close>

definition life_of :: "asset \<Rightarrow> int" where
  "life_of asset =
     (case useful_life_months asset of None \<Rightarrow> 60 | Some l \<Rightarrow> if l = 0 then 60 else l)"

text \<open>
  \<open>fromisoformat\<close> stands for \<open>datetime.date.fromisoformat\<close> (\<open>None\<close> when it raises, which
  the bare \<open>except\<close> catches) and \<open>today\<close> for the value of \<open>datetime.date.today()\<close>.
\<close>

definition calc_depreciation ::
    "(string \<Rightarrow> date option) \<Rightarrow> date \<Rightarrow> asset \<Rightarrow> error + snapshot" where
  "calc_depreciation fromisoformat today asset =
     (let pv = pv_of asset; pd = pd_of asset; meth = meth_of asset; life = life_of asset
      in if pd = [] \<or> pv = 0 \<or> meth = ''None'' then Inr (no_depreciation pv)
         else case fromisoformat pd of
           None \<Rightarrow> Inr (no_depreciation pv)
         | Some start \<Rightarrow>
             let months = months_between start today
             in if meth = ''Straight-Line'' then
                  (case truediv pv (of_int life) of
                     Inl e \<Rightarrow> Inl e
                   | Inr monthly' \<Rightarrow>
                       let accumulated' = min pv (monthly' * of_int months);
                           book_value' = max 0 (pv - accumulated')
                       in Inr (rounded_snapshot monthly' accumulated' book_value' months life))
                else if meth = ''Declining Balance'' then
                  (case truediv 2 (of_int life) of
                     Inl e \<Rightarrow> Inl e
                   | Inr q \<Rightarrow>
                       let mr = q / 12;
                           book_value' = pv * (1 - mr) ^ nat months;
                           accumulated' = pv - book_value';
                           monthly' = book_value' * mr
                       in Inr (rounded_snapshot monthly' accumulated' book_value' months life))
                else Inr (rounded_snapshot 0 0 pv months life))"

subsection \<open>Sessions, mail and inserts\<close>

text \<open>\<open>is_approver\<close>: \<open>session.get("user") in APPROVERS\<close>.\<close>

definition is_approver :: "string option \<Rightarrow> bool" where
  "is_approver user = (case user of None \<Rightarrow> False | Some u \<Rightarrow> u \<in> set APPROVERS)"

text \<open>
  \<open>send_approval_email\<close>: nothing when \<open>EMAIL_ENABLED\<close> is false; otherwise the message is
  handed to SMTP, and a failure there is printed and swallowed. The \<open>outbox\<close> lists the
  messages handed over.
\<close>

definition send_approval_email :: "bool \<Rightarrow> email \<Rightarrow> world \<Rightarrow> world" where
  "send_approval_email email_enabled msg w =
     (if email_enabled then w\<lparr>outbox := outbox w @ [msg]\<rparr> else w)"

text \<open>The \<open>WHERE\<close> clause of the relocation: \<open>date_to IS NULL OR date_to = ''\<close>.\<close>

definition open_interval :: "location_history_row \<Rightarrow> bool" where
  "open_interval e = (date_to e = None \<or> date_to e = Some [])"

text \<open>
  \<open>INSERT INTO location_history\<close>: the row takes the next value of the \<open>SERIAL\<close> sequence
  (consumed even when the statement fails), and \<open>asset_id\<close> must reference an asset.
\<close>

definition insert_location_history ::
    "location_history_row \<Rightarrow> world \<Rightarrow> error option \<times> world" where
  "insert_location_history row w =
     (let n = location_history_id_seq w; w' = w\<lparr>location_history_id_seq := Suc n\<rparr>
      in if lh_asset_id row \<in> set (map a_asset_id (assets w))
         then (None, w'\<lparr>location_history := location_history w @ [row\<lparr>lh_id := n\<rparr>]\<rparr>)
         else (Some ForeignKeyViolation, w'))"

subsection \<open>Approval of assets and transactions\<close>

definition approve_asset ::
    "(nat \<Rightarrow> timestamp) \<Rightarrow> string option \<Rightarrow> form \<Rightarrow> nat \<Rightarrow> world \<Rightarrow> outcome \<times> world" where
  "approve_asset now user f aid w =
     (case user of
        None \<Rightarrow> (Returned Redirect_login, w)
      | Some u \<Rightarrow>
          if \<not> is_approver user then (Returned Redirect_dashboard, w)
          else
            let action = f ''action''; reason = form_get f ''reason'' [];
                asset = fetchone (\<lambda>a. a_id a = aid) (assets w)
            in if action = Some ''approve'' then
                 (let w1 = w\<lparr>assets := sql_update (\<lambda>a. a_id a = aid)
                            (\<lambda>a. a\<lparr>a_approval_status := Some ''approved'',
                                    status := Some ''Active''\<rparr>) (assets w)\<rparr>
                  in case asset of
                       None \<Rightarrow> (Raised TypeError, w1)
                     | Some a \<Rightarrow>
                         (let (failure, w2) = insert_location_history
                                 \<lparr>lh_id = 0, lh_asset_id = a_asset_id a,
                                  date_from = purchase_date a, date_to = None,
                                  location = current_location a, country = Some [],
                                  customer = None, purpose = Some ''Initial receipt'',
                                  shipped_by = None, lh_notes = None,
                                  lh_created_at = Some (now 2), lh_created_by = Some u\<rparr> w1
                          in case failure of
                               Some e \<Rightarrow> (Raised e, w2)
                             | None \<Rightarrow> (Returned Redirect_dashboard, w2)))
               else
                 (case asset of
                    None \<Rightarrow> (Raised AttributeError, w)
                  | Some a \<Rightarrow>
                      (Returned Redirect_dashboard,
                       w\<lparr>assets := sql_update (\<lambda>r. a_id r = aid)
                            (\<lambda>r. r\<lparr>a_approval_status := Some ''rejected'',
                                    a_notes := Some (''[REJECTED: '' @ reason @ ''] '' @
                                      (case a_notes a of None \<Rightarrow> [] | Some n \<Rightarrow> n))\<rparr>)
                            (assets w)\<rparr>)))"

definition approve_transaction ::
    "(nat \<Rightarrow> timestamp) \<Rightarrow> string option \<Rightarrow> form \<Rightarrow> nat \<Rightarrow> world \<Rightarrow> outcome \<times> world" where
  "approve_transaction now user f tid w =
     (case user of
        None \<Rightarrow> (Returned Redirect_login, w)
      | Some u \<Rightarrow>
          if \<not> is_approver user then (Returned Redirect_dashboard, w)
          else
            let action = f ''action''; reason = form_get f ''reason'' [];
                tx = fetchone (\<lambda>t. tx_id t = tid) (sales_disposal w)
            in if action = Some ''approve'' then
                 (let w1 = w\<lparr>sales_disposal := sql_update (\<lambda>t. tx_id t = tid)
                            (\<lambda>t. t\<lparr>tx_approval_status := Some ''approved'',
                                    approved_by := Some u, approved_at := Some (now 1)\<rparr>)
                            (sales_disposal w)\<rparr>
                  in case tx of
                       None \<Rightarrow> (Raised TypeError, w1)
                     | Some t \<Rightarrow>
                         (Returned Redirect_dashboard,
                          w1\<lparr>assets := sql_update (\<lambda>a. a_asset_id a = tx_asset_id t)
                               (\<lambda>a. a\<lparr>status := Some (if tx_type t = Some ''Sale''
                                                         then ''Sold'' else ''Disposed''),
                                       updated_at := Some (now 2)\<rparr>)
                               (assets w1)\<rparr>))
               else
                 (let w1 = w\<lparr>sales_disposal := sql_update (\<lambda>t. tx_id t = tid)
                            (\<lambda>t. t\<lparr>tx_approval_status := Some ''rejected'',
                                    reject_reason := Some reason,
                                    approved_by := Some u, approved_at := Some (now 1)\<rparr>)
                            (sales_disposal w)\<rparr>
                  in case tx of
                       None \<Rightarrow> (Raised TypeError, w1)
                     | Some t \<Rightarrow> (Returned Redirect_dashboard, w1)))"

subsection \<open>Editing and relocating an asset\<close>

text \<open>
  \<open>float_of\<close> and \<open>int_of\<close> stand for Python's \<open>float\<close> and \<open>int\<close> on a string of the
  form, \<open>None\<close> being their \<open>ValueError\<close>. The arguments of the \<open>UPDATE\<close> are evaluated
  from left to right before the statement runs.
\<close>

definition asset_edit ::
    "(string \<Rightarrow> rat option) \<Rightarrow> (string \<Rightarrow> int option) \<Rightarrow> (nat \<Rightarrow> timestamp) \<Rightarrow>
     string option \<Rightarrow> http_method \<Rightarrow> form \<Rightarrow> string \<Rightarrow> world \<Rightarrow> outcome \<times> world" where
  "asset_edit float_of int_of now user request_method f asset_id w =
     (case user of
        None \<Rightarrow> (Returned Redirect_login, w)
      | Some u \<Rightarrow>
          (case fetchone (\<lambda>a. a_asset_id a = asset_id) (assets w) of
             None \<Rightarrow> (Returned Redirect_assets, w)
           | Some asset \<Rightarrow>
               if request_method = POST then
                 (case f ''serial_number'' of None \<Rightarrow> (Raised BadRequestKeyError, w) | Some sn \<Rightarrow>
                  case f ''asset_name'' of None \<Rightarrow> (Raised BadRequestKeyError, w) | Some an \<Rightarrow>
                  case f ''asset_type'' of None \<Rightarrow> (Raised BadRequestKeyError, w) | Some ty \<Rightarrow>
                  case f ''purchase_value'' of None \<Rightarrow> (Raised BadRequestKeyError, w) | Some pvs \<Rightarrow>
                  case (if pvs = [] then Some 0 else float_of pvs) of
                    None \<Rightarrow> (Raised ValueError, w) | Some pv \<Rightarrow>
                  case (case f ''useful_life_months'' of None \<Rightarrow> Some 60
                        | Some ls \<Rightarrow> if ls = [] then Some 60 else int_of ls) of
                    None \<Rightarrow> (Raised ValueError, w) | Some life \<Rightarrow>
                  (Returned (Redirect_asset_detail asset_id),
                   w\<lparr>assets := sql_update (\<lambda>a. a_asset_id a = asset_id)
                        (\<lambda>a. a\<lparr>serial_number := sn, asset_name := an, asset_type := Some ty,
                                model := Some (form_get f ''model'' []),
                                purchase_date := Some (form_get f ''purchase_date'' []),
                                purchase_value := Some pv,
                                currency := Some (form_get f ''currency'' ''EUR''),
                                dep_method := Some (form_get f ''dep_method'' ''Declining Balance''),
                                useful_life_months := Some life,
                                current_location := Some (form_get f ''current_location'' []),
                                status := Some (form_get f ''status'' ''Active''),
                                responsible := Some (form_get f ''responsible'' []),
                                a_notes := Some (form_get f ''notes'' []),
                                updated_at := Some (now 1)\<rparr>)
                        (assets w)\<rparr>))
               else (Returned Render_asset_form, w)))"

definition location_add ::
    "(nat \<Rightarrow> timestamp) \<Rightarrow> string option \<Rightarrow> form \<Rightarrow> string \<Rightarrow> world \<Rightarrow> outcome \<times> world" where
  "location_add now user f asset_id w =
     (case user of
        None \<Rightarrow> (Returned Redirect_login, w)
      | Some u \<Rightarrow>
          let w1 = w\<lparr>location_history :=
                     sql_update (\<lambda>e. lh_asset_id e = asset_id \<and> open_interval e)
                       (\<lambda>e. e\<lparr>date_to := Some (form_get f ''date_from'' [])\<rparr>)
                       (location_history w)\<rparr>;
              (failure, w2) = insert_location_history
                    \<lparr>lh_id = 0, lh_asset_id = asset_id,
                     date_from = Some (form_get f ''date_from'' []),
                     date_to = Some (form_get f ''date_to'' []),
                     location = Some (form_get f ''location'' []),
                     country = Some (form_get f ''country'' []),
                     customer = Some (form_get f ''customer'' []),
                     purpose = Some (form_get f ''purpose'' []),
                     shipped_by = Some (form_get f ''shipped_by'' []),
                     lh_notes = Some (form_get f ''notes'' []),
                     lh_created_at = Some (now 2), lh_created_by = Some u\<rparr> w1
          in case failure of
               Some e \<Rightarrow> (Raised e, w2)
             | None \<Rightarrow>
                 (Returned (Redirect_asset_detail asset_id),
                  w2\<lparr>assets := sql_update (\<lambda>a. a_asset_id a = asset_id)
                       (\<lambda>a. a\<lparr>current_location := Some (form_get f ''location'' []),
                               status := Some (form_get f ''status'' ''With Customer''),
                               updated_at := Some (now 3)\<rparr>)
                       (assets w2)\<rparr>))"

text \<open>
  A sequence of relocation requests for one asset by one user, each with its clock and its
  form, run one after the other.
\<close>

fun relocate_all ::
    "string option \<Rightarrow> string \<Rightarrow> ((nat \<Rightarrow> timestamp) \<times> form) list \<Rightarrow> world \<Rightarrow> world" where
  "relocate_all user asset_id [] w = w"
| "relocate_all user asset_id (r # rs) w =
     relocate_all user asset_id rs (snd (location_add (fst r) user (snd r) asset_id w))"

subsection \<open>Submitting a transaction\<close>

definition transaction_submit ::
    "bool \<Rightarrow> string option \<Rightarrow> nat \<Rightarrow> world \<Rightarrow> outcome \<times> world" where
  "transaction_submit email_enabled user tid w =
     (case user of
        None \<Rightarrow> (Returned Redirect_login, w)
      | Some u \<Rightarrow>
          (case fetchone (\<lambda>t. tx_id t = tid) (sales_disposal w) of
             None \<Rightarrow> (Returned Redirect_transactions, w)
           | Some tx \<Rightarrow>
               let w1 = w\<lparr>sales_disposal := sql_update (\<lambda>t. tx_id t = tid)
                          (\<lambda>t. t\<lparr>tx_approval_status := Some ''pending''\<rparr>) (sales_disposal w)\<rparr>;
                   asset = fetchone (\<lambda>a. a_asset_id a = tx_asset_id tx) (assets w1);
                   msg = Approval_request (tx_type tx) (tx_asset_id tx)
                           (case asset of None \<Rightarrow> [] | Some a \<Rightarrow> asset_name a)
                           (case book_value_at_tx tx of None \<Rightarrow> 0 | Some v \<Rightarrow> v)
               in (Returned (Redirect_asset_detail (tx_asset_id tx)),
                   send_approval_email email_enabled msg w1)))"

subsection \<open>Example data\<close>

text \<open>The asset of the specification's scenario A.\<close>

definition scenario_a :: asset where
  "scenario_a =
     \<lparr>a_id = 1, a_asset_id = ''EX-100'', serial_number = ''SN-EX-0100'',
      asset_name = ''Exhibition Stand'', asset_type = Some ''Display / Exhibit'',
      model = Some ''Custom Stand'', purchase_date = Some ''2023-01-01'',
      purchase_value = Some 12000, currency = Some ''EUR'',
      dep_method = Some ''Straight-Line'', useful_life_months = Some 60,
      current_location = Some ''NEN'', status = Some ''Active'',
      responsible = Some ''Minami'', a_notes = None, a_approval_status = Some ''approved'',
      a_created_at = None, updated_at = None\<rparr>"


definition ymd :: "int \<Rightarrow> int \<Rightarrow> int \<Rightarrow> date" where
  "ymd y m d = \<lparr>year = y, month = m, day = d\<rparr>"

text \<open>The open entries of an asset's location history.\<close>

definition open_entries :: "string \<Rightarrow> world \<Rightarrow> location_history_row list" where
  "open_entries asset_id w =
     filter (\<lambda>e. lh_asset_id e = asset_id \<and> open_interval e) (location_history w)"

definition clock :: "nat \<Rightarrow> timestamp" where
  "clock k = 1000 + k"

text \<open>Stand-ins for \<open>float\<close> and \<open>int\<close> that read the one string the examples submit.\<close>

definition float_12000 :: "string \<Rightarrow> rat option" where
  "float_12000 s = (if s = ''12000'' then Some 12000 else None)"

definition int_60 :: "string \<Rightarrow> int option" where
  "int_60 s = (if s = ''60'' then Some 60 else None)"

definition pending_asset :: asset where
  "pending_asset =
     scenario_a\<lparr>status := Some ''Pending Approval'', a_approval_status := Some ''pending''\<rparr>"

definition world_pending :: world where
  "world_pending =
     \<lparr>assets = [pending_asset], location_history = [], location_history_id_seq = 1,
      sales_disposal = [], outbox = []\<rparr>"

definition world_active :: world where
  "world_active =
     \<lparr>assets = [scenario_a], location_history = [], location_history_id_seq = 1,
      sales_disposal = [], outbox = []\<rparr>"

definition initial_receipt :: location_history_row where
  "initial_receipt =
     \<lparr>lh_id = 1, lh_asset_id = ''EX-100'', date_from = Some ''2023-01-01'', date_to = None,
      location = Some ''NEN'', country = Some [], customer = None,
      purpose = Some ''Initial receipt'', shipped_by = None, lh_notes = None,
      lh_created_at = Some 1002, lh_created_by = Some ''Yuki''\<rparr>"

definition world_received :: world where
  "world_received =
     \<lparr>assets = [scenario_a], location_history = [initial_receipt],
      location_history_id_seq = 2, sales_disposal = [], outbox = []\<rparr>"

definition sale_tx :: sales_disposal_row where
  "sale_tx =
     \<lparr>tx_id = 1, tx_asset_id = ''EX-100'', tx_type = Some ''Sale'',
      tx_date = Some ''2024-01-01'', book_value_at_tx = Some 9600, sale_price = Some 10000,
      buyer = Some ''Clinic'', buyer_contact = Some [], invoice_ref = Some ''INV-7'',
      tx_notes = Some [], tx_approval_status = Some ''pending'', approved_by = None,
      approved_at = None, reject_reason = None, tx_created_at = Some 900,
      tx_created_by = Some ''Minami''\<rparr>"

definition world_sale :: world where
  "world_sale =
     \<lparr>assets = [scenario_a], location_history = [], location_history_id_seq = 1,
      sales_disposal = [sale_tx], outbox = []\<rparr>"

text \<open>The same store once the sale has been approved by Yuki.\<close>

definition world_sold :: world where
  "world_sold =
     \<lparr>assets = [scenario_a\<lparr>status := Some ''Sold'', updated_at := Some 1002\<rparr>],
      location_history = [], location_history_id_seq = 1,
      sales_disposal = [sale_tx\<lparr>tx_approval_status := Some ''approved'',
        approved_by := Some ''Yuki'', approved_at := Some 1001\<rparr>],
      outbox = []\<rparr>"

definition approve_form :: form where
  "approve_form = [''action'' \<mapsto> ''approve'']"

definition reject_form :: form where
  "reject_form = [''action'' \<mapsto> ''reject'', ''reason'' \<mapsto> ''duplicate'']"

definition blank_form :: form where
  "blank_form = Map.empty"

definition move_form :: form where
  "move_form = [''date_from'' \<mapsto> ''2024-03-01'', ''location'' \<mapsto> ''Germany'']"

definition two_moves :: "((nat \<Rightarrow> timestamp) \<times> form) list" where
  "two_moves = [(clock, move_form), (clock, move_form(''date_from'' \<mapsto> ''2024-05-01''))]"

definition sold_form :: form where
  "sold_form =
     [''serial_number'' \<mapsto> ''SN-EX-0100'', ''asset_name'' \<mapsto> ''Exhibition Stand'',
      ''asset_type'' \<mapsto> ''Other'', ''purchase_value'' \<mapsto> ''12000'',
      ''useful_life_months'' \<mapsto> ''60'', ''status'' \<mapsto> ''Sold'']"

section \<open>Properties of the depreciation calculator\<close>

subsection \<open>Rounding\<close>









subsection \<open>Months, life and the shape of the result\<close>

lemma months_between_nonneg: "0 \<le> months_between start today"
  by (simp add: months_between_def)


lemma life_of_nonzero: "life_of a \<noteq> 0"
  by (simp add: life_of_def split: option.splits)

lemma calc_depreciation_returns: "\<exists>s. calc_depreciation parse today a = Inr s"
  using life_of_nonzero [of a]
  by (simp add: calc_depreciation_def Let_def truediv_def split: option.splits)

lemma straight_line_unfold:
  assumes "dep_method a = Some ''Straight-Line''"
    and "purchase_date a = Some s" and "s \<noteq> []" and "parse (take 10 s) = Some start"
    and "purchase_value a = Some pv" and "0 < pv"
  shows "calc_depreciation parse today a =
     Inr (rounded_snapshot (pv / of_int (life_of a))
            (min pv (pv / of_int (life_of a) * of_int (months_between start today)))
            (max 0 (pv - min pv (pv / of_int (life_of a) * of_int (months_between start today))))
            (months_between start today) (life_of a))"
proof -
  have "pd_of a = take 10 s"
    using assms(2) by (simp add: pd_of_def)
  moreover from this have "pd_of a \<noteq> []"
    using assms(3) by simp
  moreover have "pv_of a = pv"
    using assms(5) by (simp add: pv_of_def)
  moreover have "meth_of a = ''Straight-Line''"
    using assms(1) by (simp add: meth_of_def)
  ultimately show ?thesis
    using assms(4,6) life_of_nonzero [of a]
    by (simp add: calc_depreciation_def Let_def truediv_def)
qed

subsection \<open>Straight-line depreciation\<close>



subsection \<open>No depreciation data\<close>

text \<open>
  Claim C4. When the purchase date is absent, empty or does not parse, or the purchase value is
  absent or 0, or the method is absent, empty or \<open>None\<close>, the calculator returns, at any
  date and without raising, the snapshot with \<open>monthly = 0\<close>, \<open>accumulated = 0\<close>,
  \<open>book_value\<close> the purchase value, \<open>months_elapsed = 0\<close> and \<open>fully_dep = False\<close>.
\<close>

theorem calc_depreciation_no_data:
  assumes "purchase_date a = None \<or> purchase_date a = Some []
     \<or> (\<exists>s. purchase_date a = Some s \<and> parse (take 10 s) = None)
     \<or> purchase_value a = None \<or> purchase_value a = Some 0
     \<or> dep_method a = None \<or> dep_method a = Some [] \<or> dep_method a = Some ''None''"
  shows "calc_depreciation parse today a =
     Inr \<lparr>monthly = 0, accumulated = 0,
          book_value = (case purchase_value a of None \<Rightarrow> 0 | Some v \<Rightarrow> v),
          months_elapsed = 0, fully_dep = False\<rparr>"
proof -
  have pv: "pv_of a = (case purchase_value a of None \<Rightarrow> 0 | Some v \<Rightarrow> v)"
    by (simp add: pv_of_def)
  from assms consider
      (date) "pd_of a = [] \<or> parse (pd_of a) = None"
    | (val) "pv_of a = 0" | (meth) "meth_of a = ''None''"
    by (auto simp: pd_of_def pv_of_def meth_of_def)
  then show ?thesis
  proof cases
    case date
    then show ?thesis
      by (auto simp: calc_depreciation_def Let_def no_depreciation_def pv)
  next
    case val
    then show ?thesis
      by (simp add: calc_depreciation_def Let_def no_depreciation_def pv [symmetric])
  next
    case meth
    then show ?thesis
      by (simp add: calc_depreciation_def Let_def no_depreciation_def pv [symmetric])
  qed
qed

text \<open>A date with month 13 does not parse; the asset is otherwise that of scenario A.\<close>

theorem calc_depreciation_no_data_witness:
  "purchase_date (scenario_a\<lparr>purchase_date := Some ''2023-13-01''\<rparr>) = Some ''2023-13-01''
   \<and> date_fromisoformat (take 10 ''2023-13-01'') = None
   \<and> calc_depreciation date_fromisoformat (ymd 2024 1 1) (scenario_a\<lparr>purchase_date := Some ''2023-13-01''\<rparr>) =
       Inr \<lparr>monthly = 0, accumulated = 0, book_value = 12000,
            months_elapsed = 0, fully_dep = False\<rparr>"
proof -
  have d: "date_fromisoformat (take 10 ''2023-13-01'') = None"
    by (simp add: date_fromisoformat_def digit_of_def valid_date_def)
  then have "purchase_date (scenario_a\<lparr>purchase_date := Some ''2023-13-01''\<rparr>) = None
     \<or> purchase_date (scenario_a\<lparr>purchase_date := Some ''2023-13-01''\<rparr>) = Some []
     \<or> (\<exists>s. purchase_date (scenario_a\<lparr>purchase_date := Some ''2023-13-01''\<rparr>) = Some s
          \<and> date_fromisoformat (take 10 s) = None)
     \<or> purchase_value (scenario_a\<lparr>purchase_date := Some ''2023-13-01''\<rparr>) = None
     \<or> purchase_value (scenario_a\<lparr>purchase_date := Some ''2023-13-01''\<rparr>) = Some 0
     \<or> dep_method (scenario_a\<lparr>purchase_date := Some ''2023-13-01''\<rparr>) = None
     \<or> dep_method (scenario_a\<lparr>purchase_date := Some ''2023-13-01''\<rparr>) = Some []
     \<or> dep_method (scenario_a\<lparr>purchase_date := Some ''2023-13-01''\<rparr>) = Some ''None''"
    by simp
  from calc_depreciation_no_data [where parse = date_fromisoformat
      and today = "ymd 2024 1 1", OF this] d show ?thesis
    by (simp add: scenario_a_def)
qed

subsection \<open>The default useful life\<close>

text \<open>
  Claim C10. When \<open>useful_life_months\<close> is absent, \<open>NULL\<close> or 0 the calculator computes
  with a life of 60 months: its result is that for the same asset with a life of 60, and it
  returns a snapshot, so neither division (by the life, whose zero would raise
  \<open>ZeroDivisionError\<close> in \<open>truediv\<close>) fails.
\<close>

theorem calc_depreciation_default_life:
  assumes "useful_life_months a = None \<or> useful_life_months a = Some 0"
  shows "calc_depreciation parse today a =
       calc_depreciation parse today (a\<lparr>useful_life_months := Some 60\<rparr>)
     \<and> (\<exists>s. calc_depreciation parse today a = Inr s)
     \<and> calc_depreciation parse today a \<noteq> Inl ZeroDivisionError"
proof -
  have "life_of a = life_of (a\<lparr>useful_life_months := Some 60\<rparr>)"
    using assms by (auto simp: life_of_def)
  then have "calc_depreciation parse today a =
      calc_depreciation parse today (a\<lparr>useful_life_months := Some 60\<rparr>)"
    by (simp add: calc_depreciation_def pv_of_def pd_of_def meth_of_def Let_def
        split: option.splits)
  then show ?thesis
    using calc_depreciation_returns [of parse today a] by auto
qed

theorem calc_depreciation_default_life_witness:
  "useful_life_months (scenario_a\<lparr>useful_life_months := Some 0\<rparr>) = Some 0
   \<and> calc_depreciation date_fromisoformat (ymd 2024 1 1) (scenario_a\<lparr>useful_life_months := Some 0\<rparr>) =
       calc_depreciation date_fromisoformat (ymd 2024 1 1) scenario_a
   \<and> calc_depreciation date_fromisoformat (ymd 2024 1 1) (scenario_a\<lparr>useful_life_months := Some 0\<rparr>) \<noteq>
       Inl ZeroDivisionError"
proof -
  have restored: "scenario_a\<lparr>useful_life_months := Some 0, useful_life_months := Some 60\<rparr> =
      scenario_a"
    by (simp add: scenario_a_def)
  have zero: "useful_life_months (scenario_a\<lparr>useful_life_months := Some 0\<rparr>) = Some 0"
    by simp
  from calc_depreciation_default_life [where parse = date_fromisoformat
      and today = "ymd 2024 1 1", OF disjI2, OF zero]
  show ?thesis
    unfolding restored using zero by blast
qed

subsection \<open>Evaluating the rounding and the parser\<close>



lemma iso_2023: "date_fromisoformat (take 10 ''2023-01-01'') = Some (ymd 2023 1 1)"
  by (simp add: date_fromisoformat_def digit_of_def valid_date_def days_in_month_def
      is_leap_def ymd_def)


subsection \<open>Declining-balance depreciation\<close>






subsection \<open>What the result depends on\<close>

text \<open>
  Claim C9, as the code has it. \<open>calc_depreciation\<close> takes the asset only and reads the
  date from the system clock. Its result is determined by the year and the month of that
  date and by four columns of the asset (\<open>purchase_value\<close>, \<open>purchase_date\<close>,
  \<open>dep_method\<close>, \<open>useful_life_months\<close>): two calls that agree on these return the same
  snapshot, whatever the day of the month, the other columns and the rest of the store.
\<close>

theorem calc_depreciation_depends_on:
  assumes "year t1 = year t2" and "month t1 = month t2"
    and "purchase_value a = purchase_value b" and "purchase_date a = purchase_date b"
    and "dep_method a = dep_method b" and "useful_life_months a = useful_life_months b"
  shows "calc_depreciation parse t1 a = calc_depreciation parse t2 b"
proof -
  have "pv_of a = pv_of b" "pd_of a = pd_of b" "meth_of a = meth_of b" "life_of a = life_of b"
    using assms(3-6) by (simp_all add: pv_of_def pd_of_def meth_of_def life_of_def)
  moreover have "months_between start t1 = months_between start t2" for start
    using assms(1,2) by (simp add: months_between_def)
  ultimately show ?thesis
    by (simp add: calc_depreciation_def Let_def split: option.splits)
qed

theorem calc_depreciation_depends_on_witness:
  "year (ymd 2024 1 1) = year (ymd 2024 1 31) \<and> month (ymd 2024 1 1) = month (ymd 2024 1 31)
   \<and> purchase_value scenario_a = purchase_value pending_asset
   \<and> purchase_date scenario_a = purchase_date pending_asset
   \<and> dep_method scenario_a = dep_method pending_asset
   \<and> useful_life_months scenario_a = useful_life_months pending_asset
   \<and> calc_depreciation date_fromisoformat (ymd 2024 1 1) scenario_a = calc_depreciation date_fromisoformat (ymd 2024 1 31) pending_asset"
proof -
  have h: "year (ymd 2024 1 1) = year (ymd 2024 1 31)" "month (ymd 2024 1 1) = month (ymd 2024 1 31)"
      "purchase_value scenario_a = purchase_value pending_asset"
      "purchase_date scenario_a = purchase_date pending_asset"
      "dep_method scenario_a = dep_method pending_asset"
      "useful_life_months scenario_a = useful_life_months pending_asset"
    by (simp_all add: ymd_def pending_asset_def)
  from calc_depreciation_depends_on [OF h, where parse = date_fromisoformat] h show ?thesis
    by blast
qed

text \<open>
  The result is not a function of the argument alone: the same asset evaluated on
  2024-01-01 and on 2025-01-01 gives two different snapshots.
\<close>

theorem calc_depreciation_reads_clock:
  "calc_depreciation date_fromisoformat (ymd 2024 1 1) scenario_a \<noteq> calc_depreciation date_fromisoformat (ymd 2025 1 1) scenario_a"
proof -
  have h: "dep_method scenario_a = Some ''Straight-Line''"
      "purchase_date scenario_a = Some ''2023-01-01''"
      "purchase_value scenario_a = Some 12000"
    by (simp_all add: scenario_a_def)
  have "months_elapsed s1 \<noteq> months_elapsed s2"
    if "calc_depreciation date_fromisoformat (ymd 2024 1 1) scenario_a = Inr s1"
      "calc_depreciation date_fromisoformat (ymd 2025 1 1) scenario_a = Inr s2" for s1 s2
    using that straight_line_unfold
      [where parse = date_fromisoformat, OF h(1) h(2) _ iso_2023 h(3)]
    by (auto simp: rounded_snapshot_def months_between_def ymd_def)
  then show ?thesis
    using calc_depreciation_returns [of date_fromisoformat "ymd 2024 1 1" scenario_a] by force
qed

section \<open>Properties of the lifecycle handlers\<close>

subsection \<open>Queries and inserts\<close>

lemma fetchone_SomeD: "fetchone p rows = Some r \<Longrightarrow> r \<in> set rows \<and> p r"
  unfolding fetchone_def by (auto simp: find_Some_iff)

lemma insert_location_history_ok:
  assumes "lh_asset_id row \<in> set (map a_asset_id (assets w))"
  shows "insert_location_history row w =
     (None, w\<lparr>location_history_id_seq := Suc (location_history_id_seq w),
              location_history := location_history w @ [row\<lparr>lh_id := location_history_id_seq w\<rparr>]\<rparr>)"
  using assms by (simp add: insert_location_history_def Let_def)

lemma closed_entries:
  assumes "d \<noteq> []"
  shows "filter (\<lambda>e. lh_asset_id e = asset_id \<and> open_interval e)
      (map (\<lambda>e. if lh_asset_id e = asset_id \<and> open_interval e then e\<lparr>date_to := Some d\<rparr> else e)
        rows) = []"
  using assms by (induction rows) (auto simp: open_interval_def)

subsection \<open>Approving an asset\<close>

text \<open>
  Claim C7. When an approver approves an asset that exists (a pending one in particular),
  the handler returns with these effects and no other: every row with that id gets
  \<open>approval_status = approved\<close> and \<open>status = Active\<close>, and exactly one row is appended
  to the location history, for that asset, with purpose \<open>Initial receipt\<close>, \<open>date_from\<close>
  the asset's purchase date and \<open>date_to\<close> \<open>NULL\<close> (an open interval).
\<close>

theorem approve_asset_approves:
  assumes approver: "u \<in> set APPROVERS"
    and action: "f ''action'' = Some ''approve''"
    and found: "fetchone (\<lambda>r. a_id r = aid) (assets w) = Some a"
  shows "approve_asset now (Some u) f aid w =
     (Returned Redirect_dashboard,
      w\<lparr>assets := map (\<lambda>r. if a_id r = aid
                           then r\<lparr>a_approval_status := Some ''approved'', status := Some ''Active''\<rparr>
                           else r) (assets w),
        location_history := location_history w @
          [\<lparr>lh_id = location_history_id_seq w, lh_asset_id = a_asset_id a,
            date_from = purchase_date a, date_to = None,
            location = current_location a, country = Some [], customer = None,
            purpose = Some ''Initial receipt'', shipped_by = None, lh_notes = None,
            lh_created_at = Some (now 2), lh_created_by = Some u\<rparr>],
        location_history_id_seq := Suc (location_history_id_seq w)\<rparr>)"
proof -
  let ?w1 = "w\<lparr>assets := sql_update (\<lambda>a. a_id a = aid)
      (\<lambda>a. a\<lparr>a_approval_status := Some ''approved'', status := Some ''Active''\<rparr>) (assets w)\<rparr>"
  have "a \<in> set (assets w)"
    using fetchone_SomeD [OF found] by simp
  then have "a_asset_id a \<in> set (map a_asset_id (assets ?w1))"
    by (force simp: sql_update_def)
  then have ins: "insert_location_history
      \<lparr>lh_id = 0, lh_asset_id = a_asset_id a, date_from = purchase_date a, date_to = None,
       location = current_location a, country = Some [], customer = None,
       purpose = Some ''Initial receipt'', shipped_by = None, lh_notes = None,
       lh_created_at = Some (now 2), lh_created_by = Some u\<rparr> ?w1 =
     (None, ?w1\<lparr>location_history_id_seq := Suc (location_history_id_seq ?w1),
        location_history := location_history ?w1 @
          [\<lparr>lh_id = 0, lh_asset_id = a_asset_id a, date_from = purchase_date a, date_to = None,
            location = current_location a, country = Some [], customer = None,
            purpose = Some ''Initial receipt'', shipped_by = None, lh_notes = None,
            lh_created_at = Some (now 2), lh_created_by = Some u\<rparr>
           \<lparr>lh_id := location_history_id_seq ?w1\<rparr>]\<rparr>)"
    by (intro insert_location_history_ok) simp
  show ?thesis
    unfolding approve_asset_def
    by (simp add: approver is_approver_def action found Let_def ins) (simp add: sql_update_def)
qed

text \<open>Yuki approves the pending asset of \<open>world_pending\<close>.\<close>

theorem approve_asset_approves_witness:
  "''Yuki'' \<in> set APPROVERS \<and> approve_form ''action'' = Some ''approve''
   \<and> fetchone (\<lambda>r. a_id r = 1) (assets world_pending) = Some pending_asset
   \<and> approve_asset clock (Some ''Yuki'') approve_form 1 world_pending =
       (Returned Redirect_dashboard, world_received)"
proof -
  have h: "''Yuki'' \<in> set APPROVERS" "approve_form ''action'' = Some ''approve''"
      "fetchone (\<lambda>r. a_id r = 1) (assets world_pending) = Some pending_asset"
    by (simp_all add: APPROVERS_def approve_form_def fetchone_def world_pending_def
        pending_asset_def scenario_a_def)
  from approve_asset_approves [where u = "''Yuki''" and f = approve_form and aid = 1
      and w = world_pending and a = pending_asset and now = clock, OF h]
  have "approve_asset clock (Some ''Yuki'') approve_form 1 world_pending =
      (Returned Redirect_dashboard, world_received)"
    by (simp add: world_pending_def world_received_def pending_asset_def scenario_a_def
        initial_receipt_def clock_def)
  then show ?thesis
    using h by simp
qed

subsection \<open>Approving or rejecting a transaction\<close>

text \<open>
  Claim C8. When an approver decides an existing transaction: on \<open>approve\<close> the
  transaction gets \<open>approval_status = approved\<close>, the approver's name and the time, and
  every asset row of the transaction's asset gets status \<open>Sold\<close> if the type is \<open>Sale\<close>
  and \<open>Disposed\<close> otherwise (with \<open>updated_at\<close>); on any other action the transaction
  gets \<open>approval_status = rejected\<close>, the reason, the approver's name and the time, and
  the assets are left exactly as they were.
\<close>

theorem approve_transaction_cascade:
  assumes approver: "u \<in> set APPROVERS"
    and found: "fetchone (\<lambda>r. tx_id r = tid) (sales_disposal w) = Some t"
  shows "(f ''action'' = Some ''approve'' \<longrightarrow>
       approve_transaction now (Some u) f tid w =
         (Returned Redirect_dashboard,
          w\<lparr>sales_disposal := map (\<lambda>r. if tx_id r = tid
                 then r\<lparr>tx_approval_status := Some ''approved'', approved_by := Some u,
                        approved_at := Some (now 1)\<rparr>
                 else r) (sales_disposal w),
            assets := map (\<lambda>r. if a_asset_id r = tx_asset_id t
                 then r\<lparr>status := Some (if tx_type t = Some ''Sale'' then ''Sold''
                                          else ''Disposed''),
                        updated_at := Some (now 2)\<rparr>
                 else r) (assets w)\<rparr>))
     \<and> (f ''action'' \<noteq> Some ''approve'' \<longrightarrow>
       approve_transaction now (Some u) f tid w =
         (Returned Redirect_dashboard,
          w\<lparr>sales_disposal := map (\<lambda>r. if tx_id r = tid
                 then r\<lparr>tx_approval_status := Some ''rejected'',
                        reject_reason := Some (form_get f ''reason'' []),
                        approved_by := Some u, approved_at := Some (now 1)\<rparr>
                 else r) (sales_disposal w)\<rparr>)
       \<and> assets (snd (approve_transaction now (Some u) f tid w)) = assets w)"
  unfolding approve_transaction_def
  by (simp add: approver is_approver_def found Let_def sql_update_def)

text \<open>Yuki approves, and in a second run rejects, the pending sale of \<open>world_sale\<close>.\<close>

theorem approve_transaction_cascade_witness:
  "''Yuki'' \<in> set APPROVERS
   \<and> fetchone (\<lambda>r. tx_id r = 1) (sales_disposal world_sale) = Some sale_tx
   \<and> approve_form ''action'' = Some ''approve'' \<and> reject_form ''action'' \<noteq> Some ''approve''
   \<and> approve_transaction clock (Some ''Yuki'') approve_form 1 world_sale =
       (Returned Redirect_dashboard, world_sold)
   \<and> approve_transaction clock (Some ''Yuki'') reject_form 1 world_sale =
       (Returned Redirect_dashboard,
        world_sale\<lparr>sales_disposal := [sale_tx\<lparr>tx_approval_status := Some ''rejected'',
          reject_reason := Some ''duplicate'', approved_by := Some ''Yuki'',
          approved_at := Some 1001\<rparr>]\<rparr>)
   \<and> assets (snd (approve_transaction clock (Some ''Yuki'') reject_form 1 world_sale)) =
       [scenario_a]"
proof -
  have h: "''Yuki'' \<in> set APPROVERS"
      "fetchone (\<lambda>r. tx_id r = 1) (sales_disposal world_sale) = Some sale_tx"
    by (simp_all add: APPROVERS_def fetchone_def world_sale_def sale_tx_def)
  have a: "approve_form ''action'' = Some ''approve''"
      "reject_form ''action'' \<noteq> Some ''approve''"
      "form_get reject_form ''reason'' [] = ''duplicate''"
    by (simp_all add: approve_form_def reject_form_def form_get_def)
  have "approve_transaction clock (Some ''Yuki'') approve_form 1 world_sale =
       (Returned Redirect_dashboard, world_sold)"
    using approve_transaction_cascade [OF h, where f = approve_form and now = clock] a(1)
    by (simp add: world_sale_def world_sold_def sale_tx_def scenario_a_def clock_def)
  moreover have "approve_transaction clock (Some ''Yuki'') reject_form 1 world_sale =
       (Returned Redirect_dashboard,
        world_sale\<lparr>sales_disposal := [sale_tx\<lparr>tx_approval_status := Some ''rejected'',
          reject_reason := Some ''duplicate'', approved_by := Some ''Yuki'',
          approved_at := Some 1001\<rparr>]\<rparr>)"
      "assets (snd (approve_transaction clock (Some ''Yuki'') reject_form 1 world_sale)) =
       [scenario_a]"
    using approve_transaction_cascade [OF h, where f = reject_form and now = clock] a(2,3)
    by (simp_all add: world_sale_def sale_tx_def clock_def)
  ultimately show ?thesis
    using h a by simp
qed

subsection \<open>Relocating an asset\<close>

lemma location_add_result:
  assumes date: "f ''date_from'' = Some d" and nonempty: "d \<noteq> []"
    and exists: "asset_id \<in> set (map a_asset_id (assets w))"
  shows "location_add now (Some u) f asset_id w =
       (Returned (Redirect_asset_detail asset_id),
        w\<lparr>location_history :=
            map (\<lambda>e. if lh_asset_id e = asset_id \<and> open_interval e
                     then e\<lparr>date_to := Some d\<rparr> else e) (location_history w) @
            [\<lparr>lh_id = location_history_id_seq w, lh_asset_id = asset_id,
              date_from = Some d, date_to = Some (form_get f ''date_to'' []),
              location = Some (form_get f ''location'' []),
              country = Some (form_get f ''country'' []),
              customer = Some (form_get f ''customer'' []),
              purpose = Some (form_get f ''purpose'' []),
              shipped_by = Some (form_get f ''shipped_by'' []),
              lh_notes = Some (form_get f ''notes'' []),
              lh_created_at = Some (now 2), lh_created_by = Some u\<rparr>],
          location_history_id_seq := Suc (location_history_id_seq w),
          assets := map (\<lambda>a. if a_asset_id a = asset_id
                     then a\<lparr>current_location := Some (form_get f ''location'' []),
                            status := Some (form_get f ''status'' ''With Customer''),
                            updated_at := Some (now 3)\<rparr>
                     else a) (assets w)\<rparr>)"
proof -
  have df: "form_get f ''date_from'' [] = d"
    using date by (simp add: form_get_def)
  let ?w1 = "w\<lparr>location_history :=
      sql_update (\<lambda>e. lh_asset_id e = asset_id \<and> open_interval e)
        (\<lambda>e. e\<lparr>date_to := Some d\<rparr>) (location_history w)\<rparr>"
  let ?row = "\<lparr>lh_id = 0, lh_asset_id = asset_id,
              date_from = Some d, date_to = Some (form_get f ''date_to'' []),
              location = Some (form_get f ''location'' []),
              country = Some (form_get f ''country'' []),
              customer = Some (form_get f ''customer'' []),
              purpose = Some (form_get f ''purpose'' []),
              shipped_by = Some (form_get f ''shipped_by'' []),
              lh_notes = Some (form_get f ''notes'' []),
              lh_created_at = Some (now 2), lh_created_by = Some u\<rparr>"
  have "lh_asset_id ?row \<in> set (map a_asset_id (assets ?w1))"
    using exists by simp
  from insert_location_history_ok [OF this]
  have ins: "insert_location_history ?row ?w1 =
     (None, ?w1\<lparr>location_history_id_seq := Suc (location_history_id_seq ?w1),
        location_history := location_history ?w1 @ [?row\<lparr>lh_id := location_history_id_seq ?w1\<rparr>]\<rparr>)" .
  show ?thesis
    unfolding location_add_def
    by (simp add: df Let_def ins) (simp add: sql_update_def)
qed

lemma location_add_open_count:
  assumes date: "f ''date_from'' = Some d" and nonempty: "d \<noteq> []"
    and exists: "asset_id \<in> set (map a_asset_id (assets w))"
  shows "length (open_entries asset_id (snd (location_add now (Some u) f asset_id w))) =
         (if form_get f ''date_to'' [] = [] then 1 else 0)"
  unfolding location_add_result [where f = f, OF assms] open_entries_def
  by (simp add: closed_entries [OF nonempty] del: filter_map) (simp add: open_interval_def)

text \<open>
  Claim C1, as the code has it. A relocation of an existing asset whose \<open>date_from\<close> is
  not empty closes every open entry of that asset (its \<open>date_to\<close> becomes the new
  \<open>date_from\<close>), appends the new entry with the \<open>date_to\<close> the form gives (empty when
  the form gives none), and sets the asset's \<open>current_location\<close> and \<open>status\<close> (\<open>With
  Customer\<close> when the form gives none). Afterwards the asset has at most one open entry:
  exactly one when the form's \<open>date_to\<close> is empty, none otherwise. This holds from any
  store, so after any sequence of such relocations.
\<close>

theorem location_add_relocates:
  assumes date: "f ''date_from'' = Some d" and nonempty: "d \<noteq> []"
    and exists: "asset_id \<in> set (map a_asset_id (assets w))"
  shows "location_add now (Some u) f asset_id w =
       (Returned (Redirect_asset_detail asset_id),
        w\<lparr>location_history :=
            map (\<lambda>e. if lh_asset_id e = asset_id \<and> open_interval e
                     then e\<lparr>date_to := Some d\<rparr> else e) (location_history w) @
            [\<lparr>lh_id = location_history_id_seq w, lh_asset_id = asset_id,
              date_from = Some d, date_to = Some (form_get f ''date_to'' []),
              location = Some (form_get f ''location'' []),
              country = Some (form_get f ''country'' []),
              customer = Some (form_get f ''customer'' []),
              purpose = Some (form_get f ''purpose'' []),
              shipped_by = Some (form_get f ''shipped_by'' []),
              lh_notes = Some (form_get f ''notes'' []),
              lh_created_at = Some (now 2), lh_created_by = Some u\<rparr>],
          location_history_id_seq := Suc (location_history_id_seq w),
          assets := map (\<lambda>a. if a_asset_id a = asset_id
                     then a\<lparr>current_location := Some (form_get f ''location'' []),
                            status := Some (form_get f ''status'' ''With Customer''),
                            updated_at := Some (now 3)\<rparr>
                     else a) (assets w)\<rparr>)
     \<and> length (open_entries asset_id (snd (location_add now (Some u) f asset_id w))) =
         (if form_get f ''date_to'' [] = [] then 1 else 0)"
proof -
  note result = location_add_result [where f = f and now = now and u = u, OF assms]
  have closed: "filter (\<lambda>e. lh_asset_id e = asset_id \<and> open_interval e)
      (map (\<lambda>e. if lh_asset_id e = asset_id \<and> open_interval e then e\<lparr>date_to := Some d\<rparr> else e)
        (location_history w)) = []"
    using nonempty by (rule closed_entries)
  have "length (open_entries asset_id (snd (location_add now (Some u) f asset_id w))) =
      length (filter (\<lambda>e. lh_asset_id e = asset_id \<and> open_interval e)
        [\<lparr>lh_id = location_history_id_seq w, lh_asset_id = asset_id,
          date_from = Some d, date_to = Some (form_get f ''date_to'' []),
          location = Some (form_get f ''location'' []),
          country = Some (form_get f ''country'' []),
          customer = Some (form_get f ''customer'' []),
          purpose = Some (form_get f ''purpose'' []),
          shipped_by = Some (form_get f ''shipped_by'' []),
          lh_notes = Some (form_get f ''notes'' []),
          lh_created_at = Some (now 2), lh_created_by = Some u\<rparr>])"
    unfolding result open_entries_def
    by (simp add: closed del: filter_map)
  also have "\<dots> = (if form_get f ''date_to'' [] = [] then 1 else 0)"
    by (simp add: open_interval_def)
  finally have count:
    "length (open_entries asset_id (snd (location_add now (Some u) f asset_id w))) =
      (if form_get f ''date_to'' [] = [] then 1 else 0)" .
  from result count show ?thesis
    by (rule conjI)
qed

text \<open>The asset of \<open>world_received\<close> moves to Germany on 2024-03-01.\<close>

theorem location_add_relocates_witness:
  "move_form ''date_from'' = Some ''2024-03-01'' \<and> ''2024-03-01'' \<noteq> []
   \<and> ''EX-100'' \<in> set (map a_asset_id (assets world_received))
   \<and> location_add clock (Some ''Minami'') move_form ''EX-100'' world_received =
       (Returned (Redirect_asset_detail ''EX-100''),
        \<lparr>assets = [scenario_a\<lparr>current_location := Some ''Germany'',
            status := Some ''With Customer'', updated_at := Some 1003\<rparr>],
         location_history =
           [initial_receipt\<lparr>date_to := Some ''2024-03-01''\<rparr>,
            \<lparr>lh_id = 2, lh_asset_id = ''EX-100'', date_from = Some ''2024-03-01'',
             date_to = Some [], location = Some ''Germany'', country = Some [],
             customer = Some [], purpose = Some [], shipped_by = Some [],
             lh_notes = Some [], lh_created_at = Some 1002,
             lh_created_by = Some ''Minami''\<rparr>],
         location_history_id_seq = 3, sales_disposal = [], outbox = []\<rparr>)
   \<and> length (open_entries ''EX-100''
        (snd (location_add clock (Some ''Minami'') move_form ''EX-100'' world_received))) = 1"
proof -
  have h: "move_form ''date_from'' = Some ''2024-03-01''" "''2024-03-01'' \<noteq> []"
      "''EX-100'' \<in> set (map a_asset_id (assets world_received))"
    by (simp_all add: move_form_def world_received_def scenario_a_def)
  have g: "form_get move_form ''date_to'' [] = []" "form_get move_form ''location'' [] = ''Germany''"
      "form_get move_form ''country'' [] = []" "form_get move_form ''customer'' [] = []"
      "form_get move_form ''purpose'' [] = []" "form_get move_form ''shipped_by'' [] = []"
      "form_get move_form ''notes'' [] = []"
      "form_get move_form ''status'' ''With Customer'' = ''With Customer''"
    by (simp_all add: form_get_def move_form_def)
  from location_add_relocates [where f = move_form and now = clock and u = "''Minami''", OF h]
  show ?thesis
    using h unfolding g
    by (simp add: world_received_def initial_receipt_def scenario_a_def clock_def
        open_entries_def open_interval_def)
qed

text \<open>
  The claim as stated fails twice. A relocation whose form has no \<open>date_from\<close> writes the
  empty string into the \<open>date_to\<close> of the open entry, which leaves it open, and adds a
  second open entry. A relocation whose form has a \<open>date_to\<close> inserts an entry that is
  not open, so that no entry of the asset is.
\<close>

theorem location_add_two_open_entries:
  "length (open_entries ''EX-100'' world_received) = 1
   \<and> length (open_entries ''EX-100''
      (snd (location_add clock (Some ''Minami'') blank_form ''EX-100'' world_received))) = 2
   \<and> map date_to (location_history
      (snd (location_add clock (Some ''Minami'') blank_form ''EX-100'' world_received))) =
      [Some [], Some []]
   \<and> length (open_entries ''EX-100''
      (snd (location_add clock (Some ''Minami'')
        (move_form(''date_to'' \<mapsto> ''2024-04-01'')) ''EX-100'' world_received))) = 0"
  by (simp add: location_add_def insert_location_history_def Let_def sql_update_def
      open_entries_def open_interval_def form_get_def blank_form_def move_form_def
      world_received_def initial_receipt_def scenario_a_def)

lemma location_add_keeps_asset_ids:
  assumes "f ''date_from'' = Some d" and "d \<noteq> []"
    and "asset_id \<in> set (map a_asset_id (assets w))"
  shows "map a_asset_id (assets (snd (location_add now (Some u) f asset_id w))) =
     map a_asset_id (assets w)"
  unfolding location_add_result [where f = f, OF assms]
  by (induction "assets w") (simp_all add: comp_def)

text \<open>
  Any sequence of relocations of an existing asset by a logged-in user, each with a
  \<open>date_from\<close> that is not empty, leaves the asset with at most one open entry, from
  whatever store it starts.
\<close>

theorem relocate_all_one_open:
  assumes "rs \<noteq> []"
    and "\<forall>r \<in> set rs. \<exists>d. snd r ''date_from'' = Some d \<and> d \<noteq> []"
    and "asset_id \<in> set (map a_asset_id (assets w))"
  shows "length (open_entries asset_id (relocate_all (Some u) asset_id rs w)) \<le> 1"
  using assms
proof (induction rs arbitrary: w)
  case Nil
  then show ?case by simp
next
  case (Cons r rs)
  from Cons.prems(2) obtain d where d: "snd r ''date_from'' = Some d" "d \<noteq> []"
    by auto
  let ?w = "snd (location_add (fst r) (Some u) (snd r) asset_id w)"
  show ?case
  proof (cases "rs = []")
    case True
    then show ?thesis
      using location_add_open_count [where f = "snd r" and now = "fst r" and u = u, OF d Cons.prems(3)] by simp
  next
    case False
    have "asset_id \<in> set (map a_asset_id (assets ?w))"
      using location_add_keeps_asset_ids [where f = "snd r" and now = "fst r" and u = u, OF d Cons.prems(3)] Cons.prems(3)
      by simp
    with False Cons.prems(2) have "length (open_entries asset_id
        (relocate_all (Some u) asset_id rs ?w)) \<le> 1"
      by (intro Cons.IH) simp_all
    then show ?thesis by simp
  qed
qed

theorem relocate_all_one_open_witness:
  "two_moves \<noteq> []
   \<and> snd (two_moves ! 0) ''date_from'' = Some ''2024-03-01''
   \<and> snd (two_moves ! 1) ''date_from'' = Some ''2024-05-01''
   \<and> ''EX-100'' \<in> set (map a_asset_id (assets world_received))
   \<and> length (open_entries ''EX-100''
        (relocate_all (Some ''Minami'') ''EX-100'' two_moves world_received)) \<le> 1"
proof -
  have h: "two_moves \<noteq> []"
      "\<forall>r \<in> set two_moves. \<exists>d. snd r ''date_from'' = Some d \<and> d \<noteq> []"
      "''EX-100'' \<in> set (map a_asset_id (assets world_received))"
    by (simp_all add: two_moves_def move_form_def world_received_def scenario_a_def)
  have "snd (two_moves ! 0) ''date_from'' = Some ''2024-03-01''"
      "snd (two_moves ! 1) ''date_from'' = Some ''2024-05-01''"
    by (simp_all add: two_moves_def move_form_def)
  with relocate_all_one_open [OF h, where u = "''Minami''"] h show ?thesis
    by simp
qed

subsection \<open>Submitting a transaction\<close>

text \<open>
  Claim C5, as the code has it. \<open>transaction_submit\<close> does not look at the transaction's
  state: for every existing transaction, approved and rejected ones included, it sets
  \<open>approval_status = pending\<close> and, when mail is enabled, hands one approval request to
  the mailer on every call. Only for an id that names no transaction it changes nothing
  and sends nothing.
\<close>

theorem transaction_submit_any_state:
  "(\<forall>t. fetchone (\<lambda>r. tx_id r = tid) (sales_disposal w) = Some t \<longrightarrow>
       transaction_submit email_enabled (Some u) tid w =
         (Returned (Redirect_asset_detail (tx_asset_id t)),
          w\<lparr>sales_disposal := map (\<lambda>r. if tx_id r = tid
                 then r\<lparr>tx_approval_status := Some ''pending''\<rparr> else r) (sales_disposal w),
            outbox := outbox w @
              (if email_enabled
               then [Approval_request (tx_type t) (tx_asset_id t)
                       (case fetchone (\<lambda>a. a_asset_id a = tx_asset_id t) (assets w) of
                          None \<Rightarrow> [] | Some a \<Rightarrow> asset_name a)
                       (case book_value_at_tx t of None \<Rightarrow> 0 | Some v \<Rightarrow> v)]
               else [])\<rparr>))
   \<and> (fetchone (\<lambda>r. tx_id r = tid) (sales_disposal w) = None \<longrightarrow>
       transaction_submit email_enabled (Some u) tid w = (Returned Redirect_transactions, w))"
  unfolding transaction_submit_def
  by (simp add: Let_def sql_update_def send_approval_email_def)

text \<open>A submit of the pending sale of \<open>world_sale\<close>, and one of an unknown id.\<close>

theorem transaction_submit_any_state_witness:
  "fetchone (\<lambda>r. tx_id r = 1) (sales_disposal world_sale) = Some sale_tx
   \<and> fetchone (\<lambda>r. tx_id r = 2) (sales_disposal world_sale) = None
   \<and> transaction_submit True (Some ''Minami'') 1 world_sale =
       (Returned (Redirect_asset_detail ''EX-100''),
        world_sale\<lparr>outbox :=
          [Approval_request (Some ''Sale'') ''EX-100'' ''Exhibition Stand'' 9600]\<rparr>)
   \<and> transaction_submit True (Some ''Minami'') 2 world_sale =
       (Returned Redirect_transactions, world_sale)"
proof -
  have h: "fetchone (\<lambda>r. tx_id r = 1) (sales_disposal world_sale) = Some sale_tx"
      "fetchone (\<lambda>r. tx_id r = 2) (sales_disposal world_sale) = None"
    by (simp_all add: fetchone_def world_sale_def sale_tx_def)
  have a: "fetchone (\<lambda>a. a_asset_id a = tx_asset_id sale_tx) (assets world_sale) =
      Some scenario_a"
    by (simp add: fetchone_def world_sale_def sale_tx_def scenario_a_def)
  from transaction_submit_any_state
    [where tid = 1 and w = world_sale and email_enabled = True and u = "''Minami''"] h(1)
  have "transaction_submit True (Some ''Minami'') 1 world_sale =
       (Returned (Redirect_asset_detail ''EX-100''),
        world_sale\<lparr>outbox :=
          [Approval_request (Some ''Sale'') ''EX-100'' ''Exhibition Stand'' 9600]\<rparr>)"
    by (simp add: a) (simp add: world_sale_def sale_tx_def scenario_a_def)
  moreover from transaction_submit_any_state
    [where tid = 2 and w = world_sale and email_enabled = True and u = "''Minami''"] h(2)
  have "transaction_submit True (Some ''Minami'') 2 world_sale =
       (Returned Redirect_transactions, world_sale)"
    by simp
  ultimately show ?thesis
    using h by simp
qed

text \<open>
  The claim as stated fails: a submit moves the approved sale of \<open>world_sold\<close> to
  \<open>pending\<close> and sends a request, and two submits of the sale of \<open>world_sale\<close>, which is
  pending and not a draft, send two requests.
\<close>

theorem transaction_submit_reopens_and_renotifies:
  "map tx_approval_status (sales_disposal world_sold) = [Some ''approved'']
   \<and> map tx_approval_status (sales_disposal
        (snd (transaction_submit True (Some ''Minami'') 1 world_sold))) = [Some ''pending'']
   \<and> outbox (snd (transaction_submit True (Some ''Minami'') 1 world_sold)) =
        [Approval_request (Some ''Sale'') ''EX-100'' ''Exhibition Stand'' 9600]
   \<and> outbox (snd (transaction_submit True (Some ''Minami'') 1
        (snd (transaction_submit True (Some ''Minami'') 1 world_sale)))) =
        [Approval_request (Some ''Sale'') ''EX-100'' ''Exhibition Stand'' 9600,
         Approval_request (Some ''Sale'') ''EX-100'' ''Exhibition Stand'' 9600]"
  by (simp add: transaction_submit_def fetchone_def Let_def sql_update_def
      send_approval_email_def world_sold_def world_sale_def sale_tx_def scenario_a_def)

subsection \<open>Editing an asset\<close>

text \<open>
  Claim C6, as the code has it. An edit of an existing asset, with the required fields
  present and the numbers readable, writes the form's \<open>status\<close> (\<open>Active\<close> when the form
  gives none) into every row of that asset, whatever the value, \<open>Sold\<close> and \<open>Disposed\<close>
  included, and leaves the transactions as they were. So an approved transaction is one
  way to the status \<open>Sold\<close> or \<open>Disposed\<close> (claim C8), and the edit is another.
\<close>

theorem asset_edit_writes_status:
  assumes found: "fetchone (\<lambda>r. a_asset_id r = asset_id) (assets w) = Some a"
    and sn: "f ''serial_number'' = Some sn" and an: "f ''asset_name'' = Some an"
    and ty: "f ''asset_type'' = Some ty" and pvs: "f ''purchase_value'' = Some pvs"
    and pv: "(if pvs = [] then Some 0 else float_of pvs) = Some pv"
    and life: "(case f ''useful_life_months'' of None \<Rightarrow> Some 60
                | Some ls \<Rightarrow> if ls = [] then Some 60 else int_of ls) = Some life"
  shows "asset_edit float_of int_of now (Some u) POST f asset_id w =
       (Returned (Redirect_asset_detail asset_id),
        w\<lparr>assets := map (\<lambda>r. if a_asset_id r = asset_id
               then r\<lparr>serial_number := sn, asset_name := an, asset_type := Some ty,
                      model := Some (form_get f ''model'' []),
                      purchase_date := Some (form_get f ''purchase_date'' []),
                      purchase_value := Some pv,
                      currency := Some (form_get f ''currency'' ''EUR''),
                      dep_method := Some (form_get f ''dep_method'' ''Declining Balance''),
                      useful_life_months := Some life,
                      current_location := Some (form_get f ''current_location'' []),
                      status := Some (form_get f ''status'' ''Active''),
                      responsible := Some (form_get f ''responsible'' []),
                      a_notes := Some (form_get f ''notes'' []),
                      updated_at := Some (now 1)\<rparr>
               else r) (assets w)\<rparr>)
     \<and> (\<forall>r \<in> set (assets (snd (asset_edit float_of int_of now (Some u) POST f asset_id w))).
          a_asset_id r = asset_id \<longrightarrow> status r = Some (form_get f ''status'' ''Active''))
     \<and> sales_disposal (snd (asset_edit float_of int_of now (Some u) POST f asset_id w)) =
          sales_disposal w"
proof -
  have first: "asset_edit float_of int_of now (Some u) POST f asset_id w =
       (Returned (Redirect_asset_detail asset_id),
        w\<lparr>assets := map (\<lambda>r. if a_asset_id r = asset_id
               then r\<lparr>serial_number := sn, asset_name := an, asset_type := Some ty,
                      model := Some (form_get f ''model'' []),
                      purchase_date := Some (form_get f ''purchase_date'' []),
                      purchase_value := Some pv,
                      currency := Some (form_get f ''currency'' ''EUR''),
                      dep_method := Some (form_get f ''dep_method'' ''Declining Balance''),
                      useful_life_months := Some life,
                      current_location := Some (form_get f ''current_location'' []),
                      status := Some (form_get f ''status'' ''Active''),
                      responsible := Some (form_get f ''responsible'' []),
                      a_notes := Some (form_get f ''notes'' []),
                      updated_at := Some (now 1)\<rparr>
               else r) (assets w)\<rparr>)"
    unfolding asset_edit_def
    by (simp add: found sn an ty pvs pv life sql_update_def)
  define upd where "upd = (\<lambda>r::asset. r\<lparr>serial_number := sn, asset_name := an,
      asset_type := Some ty, model := Some (form_get f ''model'' []),
      purchase_date := Some (form_get f ''purchase_date'' []), purchase_value := Some pv,
      currency := Some (form_get f ''currency'' ''EUR''),
      dep_method := Some (form_get f ''dep_method'' ''Declining Balance''),
      useful_life_months := Some life,
      current_location := Some (form_get f ''current_location'' []),
      status := Some (form_get f ''status'' ''Active''),
      responsible := Some (form_get f ''responsible'' []),
      a_notes := Some (form_get f ''notes'' []), updated_at := Some (now 1)\<rparr>)"
  have upd: "status (upd r) = Some (form_get f ''status'' ''Active'')" for r
    by (simp add: upd_def)
  have second: "status r = Some (form_get f ''status'' ''Active'')"
    if "r \<in> set (map (\<lambda>r. if a_asset_id r = asset_id then upd r else r) (assets w))"
      and "a_asset_id r = asset_id" for r
  proof -
    from that(1)
    have "r \<in> (\<lambda>r. if a_asset_id r = asset_id then upd r else r) ` set (assets w)"
      by (simp only: set_map)
    then obtain r0
      where "r = (if a_asset_id r0 = asset_id then upd r0 else r0)"
      by blast
    then show ?thesis
      using that(2) upd by (cases "a_asset_id r0 = asset_id") simp_all
  qed
  have after: "assets (snd (asset_edit float_of int_of now (Some u) POST f asset_id w)) =
      map (\<lambda>r. if a_asset_id r = asset_id then upd r else r) (assets w)"
    and frame: "sales_disposal (snd (asset_edit float_of int_of now (Some u) POST f asset_id w)) =
      sales_disposal w"
    unfolding first upd_def by simp_all
  have third: "\<forall>r \<in> set (assets (snd (asset_edit float_of int_of now (Some u) POST f asset_id w))).
      a_asset_id r = asset_id \<longrightarrow> status r = Some (form_get f ''status'' ''Active'')"
    unfolding after using second by blast
  show ?thesis
    by (rule conjI [OF first conjI [OF third frame]])
qed

text \<open>An edit of the asset of \<open>world_active\<close> with status \<open>Sold\<close>.\<close>

theorem asset_edit_writes_status_witness:
  "fetchone (\<lambda>r. a_asset_id r = ''EX-100'') (assets world_active) = Some scenario_a
   \<and> sold_form ''serial_number'' = Some ''SN-EX-0100''
   \<and> sold_form ''asset_name'' = Some ''Exhibition Stand''
   \<and> sold_form ''asset_type'' = Some ''Other''
   \<and> sold_form ''purchase_value'' = Some ''12000''
   \<and> float_12000 ''12000'' = Some 12000 \<and> int_60 ''60'' = Some 60
   \<and> asset_edit float_12000 int_60 clock (Some ''Minami'') POST sold_form ''EX-100''
        world_active =
       (Returned (Redirect_asset_detail ''EX-100''),
        world_active\<lparr>assets :=
          [scenario_a\<lparr>asset_type := Some ''Other'', model := Some [],
             purchase_date := Some [], dep_method := Some ''Declining Balance'',
             current_location := Some [], status := Some ''Sold'',
             responsible := Some [], a_notes := Some [], updated_at := Some 1001\<rparr>]\<rparr>)"
proof -
  have h: "fetchone (\<lambda>r. a_asset_id r = ''EX-100'') (assets world_active) = Some scenario_a"
      "sold_form ''serial_number'' = Some ''SN-EX-0100''"
      "sold_form ''asset_name'' = Some ''Exhibition Stand''"
      "sold_form ''asset_type'' = Some ''Other''"
      "sold_form ''purchase_value'' = Some ''12000''"
    by (simp_all add: fetchone_def world_active_def scenario_a_def sold_form_def)
  have p: "(if ''12000'' = [] then Some 0 else float_12000 ''12000'') = Some 12000"
      "(case sold_form ''useful_life_months'' of None \<Rightarrow> Some 60
        | Some ls \<Rightarrow> if ls = [] then Some 60 else int_60 ls) = Some 60"
    by (simp_all add: float_12000_def int_60_def sold_form_def)
  have g: "form_get sold_form ''model'' [] = []" "form_get sold_form ''purchase_date'' [] = []"
      "form_get sold_form ''currency'' ''EUR'' = ''EUR''"
      "form_get sold_form ''dep_method'' ''Declining Balance'' = ''Declining Balance''"
      "form_get sold_form ''current_location'' [] = []"
      "form_get sold_form ''status'' ''Active'' = ''Sold''"
      "form_get sold_form ''responsible'' [] = []" "form_get sold_form ''notes'' [] = []"
    by (simp_all add: form_get_def sold_form_def)
  from asset_edit_writes_status [where f = sold_form and float_of = float_12000
      and int_of = int_60 and now = clock and u = "''Minami''", OF h p]
  have "asset_edit float_12000 int_60 clock (Some ''Minami'') POST sold_form ''EX-100''
        world_active =
       (Returned (Redirect_asset_detail ''EX-100''),
        world_active\<lparr>assets :=
          [scenario_a\<lparr>asset_type := Some ''Other'', model := Some [],
             purchase_date := Some [], dep_method := Some ''Declining Balance'',
             current_location := Some [], status := Some ''Sold'',
             responsible := Some [], a_notes := Some [], updated_at := Some 1001\<rparr>]\<rparr>)"
    unfolding g by (simp add: world_active_def scenario_a_def clock_def)
  then show ?thesis
    using h p by (simp add: float_12000_def int_60_def)
qed

text \<open>
  The claim as stated fails: the store has no transaction before or after the edit, and
  the edit takes the asset from \<open>Active\<close> to \<open>Sold\<close>.
\<close>

theorem asset_edit_sells_without_transaction:
  "map status (assets world_active) = [Some ''Active'']
   \<and> sales_disposal world_active = []
   \<and> map status (assets (snd (asset_edit float_12000 int_60 clock (Some ''Minami'') POST
        sold_form ''EX-100'' world_active))) = [Some ''Sold'']
   \<and> sales_disposal (snd (asset_edit float_12000 int_60 clock (Some ''Minami'') POST
        sold_form ''EX-100'' world_active)) = []"
  by (simp add: asset_edit_def fetchone_def sql_update_def form_get_def sold_form_def
      float_12000_def int_60_def world_active_def scenario_a_def)

end
